theory Spec2Isabelle
  imports Main
begin

section \<open>Python values and their textual forms\<close>

text \<open>
  The library under study (trod) is dynamically typed Python. The values that reach its
  column, expression, field and key classes are modelled by one datatype: \<open>None\<close>,
  booleans, (unbounded) integers, strings, tuples, lists, slice objects and column
  objects (a column object is carried as its class name and its \<open>name\<close> attribute,
  which is all that the code below ever reads from an operand). Characters stand for
  code points below 256.
\<close>

datatype error =
  ValueError | TypeError | AttributeError | KeyError | NameError | NotImplementedError

text \<open>The classes of field.py whose instances are columns, with \<open>__class__.__name__\<close>.\<close>

datatype pyclass = CColumn | CFieldBase | CTinyint | CSmallint | CInt | CBigint | CText

fun class_name :: "pyclass \<Rightarrow> string" where
  "class_name CColumn = ''Column''"
| "class_name CFieldBase = ''FieldBase''"
| "class_name CTinyint = ''Tinyint''"
| "class_name CSmallint = ''Smallint''"
| "class_name CInt = ''Int''"
| "class_name CBigint = ''Bigint''"
| "class_name CText = ''Text''"

text \<open>
  The method resolution order of each class (the class itself, then its bases):
  Column, FieldBase(Column), Tinyint(FieldBase), Smallint(Tinyint), Int(Tinyint),
  Bigint(Int), Text(FieldBase). A class is a proper subclass of every other class in
  its order.
\<close>

fun mro :: "pyclass \<Rightarrow> pyclass list" where
  "mro CColumn = [CColumn]"
| "mro CFieldBase = [CFieldBase, CColumn]"
| "mro CTinyint = [CTinyint, CFieldBase, CColumn]"
| "mro CSmallint = [CSmallint, CTinyint, CFieldBase, CColumn]"
| "mro CInt = [CInt, CTinyint, CFieldBase, CColumn]"
| "mro CBigint = [CBigint, CInt, CTinyint, CFieldBase, CColumn]"
| "mro CText = [CText, CFieldBase, CColumn]"

text \<open>\<open>proper_subclass cls base\<close>: \<open>issubclass(cls, base)\<close> with \<open>cls\<close> other than \<open>base\<close>.\<close>

definition proper_subclass :: "pyclass \<Rightarrow> pyclass \<Rightarrow> bool" where
  "proper_subclass cls base = (cls \<noteq> base \<and> base \<in> set (mro cls))"

datatype pyval =
    PNone
  | PBool bool
  | PInt int
  | PStr string
  | PTuple "pyval list"
  | PList "pyval list"
  | PSlice pyval pyval pyval
  | PColumn pyclass pyval

text \<open>\<open>str(n)\<close> for an integer: decimal digits, with a leading minus sign.\<close>

fun str_nat :: "nat \<Rightarrow> string" where
  "str_nat n = (if n < 10 then [char_of (48 + n)]
                else str_nat (n div 10) @ [char_of (48 + n mod 10)])"

declare str_nat.simps [simp del]

definition str_int :: "int \<Rightarrow> string" where
  "str_int i = (if i < 0 then CHR ''-'' # str_nat (nat (- i)) else str_nat (nat i))"

text \<open>\<open>repr(s)\<close> for a string: quote selection and escapes as CPython does them.\<close>

definition hex_digit :: "nat \<Rightarrow> char" where
  "hex_digit d = (if d < 10 then char_of (48 + d) else char_of (87 + d))"

definition printable :: "char \<Rightarrow> bool" where
  "printable c = (let k = (of_char c :: nat) in
     (32 \<le> k \<and> k < 127) \<or> (161 \<le> k \<and> k \<noteq> 173))"

definition repr_char :: "char \<Rightarrow> char \<Rightarrow> string" where
  "repr_char q c =
     (if c = CHR 0x5C then [CHR 0x5C, CHR 0x5C]
      else if c = q then [CHR 0x5C, q]
      else if c = CHR 0x09 then [CHR 0x5C, CHR ''t'']
      else if c = CHR 0x0A then [CHR 0x5C, CHR ''n'']
      else if c = CHR 0x0D then [CHR 0x5C, CHR ''r'']
      else if printable c then [c]
      else [CHR 0x5C, CHR ''x'', hex_digit (of_char c div 16), hex_digit (of_char c mod 16)])"

definition repr_str :: "string \<Rightarrow> string" where
  "repr_str s =
     (let q = (if CHR 0x27 \<in> set s \<and> CHR 0x22 \<notin> set s then CHR 0x22 else CHR 0x27)
      in q # concat (map (repr_char q) s) @ [q])"

text \<open>\<open>', '.join(xs)\<close> and friends.\<close>

fun join :: "string \<Rightarrow> string list \<Rightarrow> string" where
  "join sep [] = []"
| "join sep [x] = x"
| "join sep (x # y # ys) = x @ sep @ join sep (y # ys)"

text \<open>
  \<open>py_fmt True v\<close> is \<open>repr(v)\<close>, \<open>py_fmt False v\<close> is \<open>str(v)\<close>, the text an f-string or
  \<open>str.format\<close> puts in place of \<open>{v}\<close>. Containers show the \<open>repr\<close> of their elements;
  a column shows \<open><Class: name>\<close> (\<open>Column.__repr__\<close>, which is also its \<open>__str__\<close>).
\<close>

fun py_fmt :: "bool \<Rightarrow> pyval \<Rightarrow> string" where
  "py_fmt r PNone = ''None''"
| "py_fmt r (PBool b) = (if b then ''True'' else ''False'')"
| "py_fmt r (PInt i) = str_int i"
| "py_fmt r (PStr s) = (if r then repr_str s else s)"
| "py_fmt r (PTuple xs) =
     (case xs of
        [x] \<Rightarrow> ''('' @ py_fmt True x @ '',)''
      | _ \<Rightarrow> ''('' @ join '', '' (map (py_fmt True) xs) @ '')'')"
| "py_fmt r (PList xs) = ''['' @ join '', '' (map (py_fmt True) xs) @ '']''"
| "py_fmt r (PSlice a b c) =
     ''slice('' @ py_fmt True a @ '', '' @ py_fmt True b @ '', '' @ py_fmt True c @ '')''"
| "py_fmt r (PColumn cls n) = ''<'' @ class_name cls @ '': '' @ py_fmt False n @ ''>''"

abbreviation py_str :: "pyval \<Rightarrow> string" where
  "py_str \<equiv> py_fmt False"

text \<open>Truthiness (\<open>if v:\<close>) of the modelled values; objects without \<open>__bool__\<close> are true.\<close>

fun py_bool :: "pyval \<Rightarrow> bool" where
  "py_bool PNone = False"
| "py_bool (PBool b) = b"
| "py_bool (PInt i) = (i \<noteq> 0)"
| "py_bool (PStr s) = (s \<noteq> [])"
| "py_bool (PTuple xs) = (xs \<noteq> [])"
| "py_bool (PList xs) = (xs \<noteq> [])"
| "py_bool (PSlice a b c) = True"
| "py_bool (PColumn cls n) = True"


section \<open>Process-wide class state\<close>

text \<open>
  The two class attributes that the constructors and properties update:
  \<open>FieldBase._field_counter\<close> (field.py) and \<open>BaseIndex._attr_key_num\<close> (index.py), both
  starting at 0, and the warnings issued through \<open>warnings.warn\<close>, oldest first.
\<close>

record pystate =
  field_counter :: int
  attr_key_num :: int
  warnings :: "string list"

definition init_state :: pystate where
  "init_state = \<lparr>field_counter = 0, attr_key_num = 0, warnings = []\<rparr>"

section \<open>Key declarations (types/index.py)\<close>

datatype index_class = CBaseIndex | CKey | CUniqueKey

text \<open>The class attribute \<open>_type_sql_tpl\<close>: \<open>None\<close> on the base class.\<close>

fun type_sql_tpl :: "index_class \<Rightarrow> string option" where
  "type_sql_tpl CBaseIndex = None"
| "type_sql_tpl CKey = Some (''KEY `{key_name}` ({cols}) COMMENT '' @ [CHR 0x27] @ ''{comment}'' @ [CHR 0x27])"
| "type_sql_tpl CUniqueKey =
     Some (''UNIQUE KEY `{key_name}` ({cols}) COMMENT '' @ [CHR 0x27] @ ''{comment}'' @ [CHR 0x27])"

record BaseIndex =
  idx_class :: index_class
  idx_name :: pyval
  idx_comment :: pyval
  idx_column :: "string list"
  idx_options :: "(string \<times> pyval) list"

text \<open>\<open>str.find\<close>, slicing up to an index that may be \<open>-1\<close>, and \<open>str.strip\<close>.\<close>

fun find_char :: "char \<Rightarrow> string \<Rightarrow> int" where
  "find_char c [] = - 1"
| "find_char c (x # xs) =
     (if x = c then 0 else (let i = find_char c xs in if i < 0 then - 1 else i + 1))"

definition slice_to :: "string \<Rightarrow> int \<Rightarrow> string" where
  "slice_to s i = (if i < 0 then take (nat (int (length s) + i)) s else take (nat i) s)"

definition is_space :: "char \<Rightarrow> bool" where
  "is_space c = (let k = (of_char c :: nat) in
     (9 \<le> k \<and> k \<le> 13) \<or> (28 \<le> k \<and> k \<le> 32) \<or> k = 133 \<or> k = 160)"

definition strip :: "string \<Rightarrow> string" where
  "strip s = rev (dropWhile is_space (rev (dropWhile is_space s)))"

text \<open>
  \<open>BaseIndex.__init__(self, column, comment='', name=None)\<close>. Without a name the source
  reads the text of the calling source line from the stack (\<open>traceback.extract_stack()[-2]\<close>)
  and keeps what precedes the first \<open>=\<close>; that line is the argument \<open>text\<close> here. The
  constructor reads and writes no class attribute: the state is returned as it came.
\<close>

definition BaseIndex_init ::
  "index_class \<Rightarrow> pyval \<Rightarrow> pyval \<Rightarrow> pyval \<Rightarrow> string \<Rightarrow> pystate \<Rightarrow> BaseIndex \<times> pystate" where
  "BaseIndex_init cls column comment nm text s =
     (let name' = (if nm = PNone then PStr (strip (slice_to text (find_char CHR ''='' text)))
                   else nm);
          column1 = (case column of PList cs \<Rightarrow> cs | _ \<Rightarrow> [column]);
          column2 = map (\<lambda>c. ''`'' @ py_str c @ ''`'') column1
      in (\<lparr>idx_class = cls, idx_name = name', idx_comment = comment, idx_column = column2,
           idx_options = [(''key_name'', name'), (''cols'', PStr (join '','' column2)),
                          (''comment'', comment)]\<rparr>, s))"

text \<open>
  \<open>tpl.format(**options)\<close> for templates whose replacement fields are plain \<open>{name}\<close>
  (the only kind the templates above contain): a missing key is a \<open>KeyError\<close>, an
  unbalanced brace a \<open>ValueError\<close>.
\<close>

function format_tpl :: "string \<Rightarrow> (string \<times> pyval) list \<Rightarrow> error + string" where
  "format_tpl [] opts = Inr []"
| "format_tpl (c # cs) opts =
     (if c = CHR ''{'' then
        (if CHR ''}'' \<notin> set cs then Inl ValueError
         else (case map_of opts (takeWhile (\<lambda>x. x \<noteq> CHR ''}'') cs) of
                 None \<Rightarrow> Inl KeyError
               | Some v \<Rightarrow>
                   (case format_tpl (drop 1 (dropWhile (\<lambda>x. x \<noteq> CHR ''}'') cs)) opts of
                      Inl e \<Rightarrow> Inl e
                    | Inr t \<Rightarrow> Inr (py_str v @ t))))
      else if c = CHR ''}'' then Inl ValueError
      else (case format_tpl cs opts of Inl e \<Rightarrow> Inl e | Inr t \<Rightarrow> Inr (c # t)))"
  by pat_completeness auto
termination
  by (relation "measure (\<lambda>(t, _). length t)")
     (simp_all add: less_Suc_eq_le le_trans [OF diff_le_self length_dropWhile_le])

text \<open>\<open>BaseIndex.build\<close>: on the base class the template is \<open>None\<close>, which has no \<open>format\<close>.\<close>

definition build :: "BaseIndex \<Rightarrow> error + string" where
  "build k = (case type_sql_tpl (idx_class k) of
                None \<Rightarrow> Inl AttributeError
              | Some tpl \<Rightarrow> format_tpl tpl (idx_options k))"

text \<open>
  The property \<open>BaseIndex._attr_key\<close>: every read advances the class attribute
  \<open>_attr_key_num\<close> and returns the new value. Nothing in the constructor reads it (the
  line that did is commented out in the source).
\<close>

definition attr_key :: "BaseIndex \<Rightarrow> pystate \<Rightarrow> int \<times> pystate" where
  "attr_key k s = (attr_key_num s + 1, s\<lparr>attr_key_num := attr_key_num s + 1\<rparr>)"


section \<open>Operators, fragments and expressions (types_/field.py)\<close>

text \<open>The operator tokens of the table \<open>OPER\<close>.\<close>

definition OPER_AND :: string where "OPER_AND = ''AND''"
definition OPER_OR :: string where "OPER_OR = ''OR''"
definition OPER_ADD :: string where "OPER_ADD = ''+''"
definition OPER_SUB :: string where "OPER_SUB = ''-''"
definition OPER_MUL :: string where "OPER_MUL = ''*''"
definition OPER_DIV :: string where "OPER_DIV = ''/''"
definition OPER_BIN_AND :: string where "OPER_BIN_AND = ''&''"
definition OPER_BIN_OR :: string where "OPER_BIN_OR = ''|''"
definition OPER_XOR :: string where "OPER_XOR = ''#''"
definition OPER_MOD :: string where "OPER_MOD = ''%''"
definition OPER_EQ :: string where "OPER_EQ = ''=''"
definition OPER_LT :: string where "OPER_LT = ''<''"
definition OPER_LTE :: string where "OPER_LTE = ''<=''"
definition OPER_GT :: string where "OPER_GT = ''>''"
definition OPER_GTE :: string where "OPER_GTE = ''>=''"
definition OPER_NE :: string where "OPER_NE = ''!=''"
definition OPER_IN :: string where "OPER_IN = ''IN''"
definition OPER_NOT_IN :: string where "OPER_NOT_IN = ''NOT IN''"
definition OPER_IS :: string where "OPER_IS = ''IS''"
definition OPER_IS_NOT :: string where "OPER_IS_NOT = ''IS NOT''"
definition OPER_LIKE :: string where "OPER_LIKE = ''LIKE''"
definition OPER_ILIKE :: string where "OPER_ILIKE = ''ILIKE''"
definition OPER_EXISTS :: string where "OPER_EXISTS = ''EXISTS''"
definition OPER_BETWEEN :: string where "OPER_BETWEEN = ''BETWEEN''"
definition OPER_REGEXP :: string where "OPER_REGEXP = ''REGEXP''"
definition OPER_IREGEXP :: string where "OPER_IREGEXP = ''IREGEXP''"
definition OPER_BITWISE_NEGATION :: string where "OPER_BITWISE_NEGATION = ''~''"

lemmas OPER_defs =
  OPER_AND_def OPER_OR_def OPER_ADD_def OPER_SUB_def OPER_MUL_def OPER_DIV_def
  OPER_BIN_AND_def OPER_BIN_OR_def OPER_XOR_def OPER_MOD_def OPER_EQ_def OPER_LT_def
  OPER_LTE_def OPER_GT_def OPER_GTE_def OPER_NE_def OPER_IN_def OPER_NOT_IN_def
  OPER_IS_def OPER_IS_NOT_def OPER_LIKE_def OPER_ILIKE_def OPER_EXISTS_def
  OPER_BETWEEN_def OPER_REGEXP_def OPER_IREGEXP_def OPER_BITWISE_NEGATION_def

text \<open>
  Class \<open>Cnt\<close>: two operands and an operator; with \<open>encap\<close> each operand is replaced by
  the text \<open>(operand)\<close>. The property \<open>sql\<close> is the f-string
  \<open>"{pair[0]} {op} {pair[1]}"\<close>.
\<close>

record Cnt =
  pair :: "pyval \<times> pyval"
  cnt_op :: string

definition Cnt_init :: "pyval \<times> pyval \<Rightarrow> string \<Rightarrow> bool \<Rightarrow> Cnt" where
  "Cnt_init pr opr encap =
     (if \<not> encap then \<lparr>pair = pr, cnt_op = opr\<rparr>
      else \<lparr>pair = (PStr (''('' @ py_str (fst pr) @ '')''), PStr (''('' @ py_str (snd pr) @ '')'')),
            cnt_op = opr\<rparr>)"

definition Cnt_sql :: "Cnt \<Rightarrow> string" where
  "Cnt_sql c = py_str (fst (pair c)) @ '' '' @ cnt_op c @ '' '' @ py_str (snd (pair c))"

text \<open>
  Class \<open>Expr\<close>. The constructor stores a column operand by its \<open>name\<close> and any other
  operand as it is.
\<close>

record Expr =
  lhs :: pyval
  op :: string
  rhs :: pyval
  flat :: bool
  logic :: bool

fun name_if_column :: "pyval \<Rightarrow> pyval" where
  "name_if_column (PColumn cls n) = n"
| "name_if_column v = v"

definition Expr_init :: "pyval \<Rightarrow> string \<Rightarrow> pyval \<Rightarrow> bool \<Rightarrow> bool \<Rightarrow> Expr" where
  "Expr_init l opr r fl lg =
     \<lparr>lhs = name_if_column l, op = opr, rhs = name_if_column r, flat = fl, logic = lg\<rparr>"

text \<open>
  \<open>isinstance(v, Iterable)\<close> and \<open>tuple(v)\<close> on the modelled values: strings, tuples and
  lists are iterable; a column defines \<open>__getitem__\<close> but no \<open>__iter__\<close>, so it is not.
\<close>

fun is_iterable :: "pyval \<Rightarrow> bool" where
  "is_iterable (PStr s) = True"
| "is_iterable (PTuple xs) = True"
| "is_iterable (PList xs) = True"
| "is_iterable v = False"

fun py_tuple :: "pyval \<Rightarrow> pyval" where
  "py_tuple (PStr s) = PTuple (map (\<lambda>c. PStr [c]) s)"
| "py_tuple (PTuple xs) = PTuple xs"
| "py_tuple (PList xs) = PTuple xs"
| "py_tuple v = v"

text \<open>
  \<open>Expr.__sql__\<close> (and \<open>Expr.sql\<close>, which only calls it). For the membership operators
  the right operand must be iterable and is replaced, in the object, by its tuple; the
  result is the text together with the expression as the call leaves it.
\<close>

definition Expr_sql :: "Expr \<Rightarrow> error + string \<times> Expr" where
  "Expr_sql e =
     (if op e \<in> {OPER_IN, OPER_NOT_IN, OPER_EXISTS} then
        (if \<not> is_iterable (rhs e) then Inl ValueError
         else (let e' = e\<lparr>rhs := py_tuple (rhs e)\<rparr>
               in Inr (Cnt_sql (Cnt_init (lhs e', rhs e') (op e') (logic e')), e')))
      else Inr (Cnt_sql (Cnt_init (lhs e, rhs e) (op e) (logic e)), e))"

text \<open>
  \<open>Expr.__and__\<close> and \<open>Expr.__or__\<close>: the other operand is either an expression or any
  other value. Both sides are rendered (left first) and become the operands of a new
  expression with \<open>logic=True\<close>.
\<close>

datatype operand = OExpr Expr | OVal pyval

definition Expr_and :: "Expr \<Rightarrow> operand \<Rightarrow> error + Expr" where
  "Expr_and self other =
     (case other of
        OExpr x \<Rightarrow>
          (case Expr_sql self of
             Inl err \<Rightarrow> Inl err
           | Inr (s1, _) \<Rightarrow>
               (case Expr_sql x of
                  Inl err \<Rightarrow> Inl err
                | Inr (s2, _) \<Rightarrow> Inr (Expr_init (PStr s1) OPER_AND (PStr s2) False True)))
      | OVal v \<Rightarrow> Inl ValueError)"

definition Expr_or :: "Expr \<Rightarrow> operand \<Rightarrow> error + Expr" where
  "Expr_or self other =
     (case other of
        OExpr x \<Rightarrow>
          (case Expr_sql self of
             Inl err \<Rightarrow> Inl err
           | Inr (s1, _) \<Rightarrow>
               (case Expr_sql x of
                  Inl err \<Rightarrow> Inl err
                | Inr (s2, _) \<Rightarrow> Inr (Expr_init (PStr s1) OPER_OR (PStr s2) False True)))
      | OVal v \<Rightarrow> Inl ValueError)"

section \<open>Columns (types_/field.py)\<close>

record Column =
  f_cls :: pyclass
  f_name :: pyval

definition Column_init :: "pyval \<Rightarrow> Column" where
  "Column_init nm = \<lparr>f_cls = CColumn, f_name = nm\<rparr>"

definition as_value :: "'a Column_scheme \<Rightarrow> pyval" where
  "as_value self = PColumn (f_cls self) (f_name self)"

text \<open>
  \<open>Column._expr(op, inv)\<close> makes the operator methods: \<open>Expr(self, op, rhs)\<close>, or
  \<open>Expr(rhs, op, self)\<close> for the reflected ones.
\<close>

definition expr_method :: "string \<Rightarrow> bool \<Rightarrow> 'a Column_scheme \<Rightarrow> pyval \<Rightarrow> Expr" where
  "expr_method opr inv' self r =
     (if inv' then Expr_init r opr (as_value self) False False
      else Expr_init (as_value self) opr r False False)"

text \<open>
  The methods built with \<open>_expr\<close>, as (method name, operator, reflected) in the order of
  the class body.
\<close>

definition column_methods :: "(string \<times> string \<times> bool) list" where
  "column_methods =
     [(''__and__'', OPER_AND, False), (''__or__'', OPER_OR, False),
      (''__add__'', OPER_ADD, False), (''__sub__'', OPER_SUB, False),
      (''__mul__'', OPER_MUL, False), (''__div__'', OPER_DIV, False),
      (''__truediv__'', OPER_DIV, False), (''__xor__'', OPER_XOR, False),
      (''__radd__'', OPER_ADD, True), (''__rsub__'', OPER_SUB, True),
      (''__rmul__'', OPER_MUL, True), (''__rdiv__'', OPER_DIV, True),
      (''__rtruediv__'', OPER_DIV, True), (''__rand__'', OPER_AND, True),
      (''__ror__'', OPER_OR, True), (''__rxor__'', OPER_XOR, True),
      (''__lt__'', OPER_LT, False), (''__le__'', OPER_LTE, False),
      (''__gt__'', OPER_GT, False), (''__ge__'', OPER_GTE, False),
      (''__lshift__'', OPER_IN, False), (''__rshift__'', OPER_IS, False),
      (''__mod__'', OPER_LIKE, False), (''__pow__'', OPER_ILIKE, False),
      (''b_and'', OPER_BIN_AND, False), (''b_or'', OPER_BIN_OR, False),
      (''in_'', OPER_IN, False), (''nin'', OPER_NOT_IN, False),
      (''regexp'', OPER_REGEXP, False), (''iregexp'', OPER_IREGEXP, False),
      (''exists'', OPER_EXISTS, False), (''like'', OPER_LIKE, False)]"

text \<open>
  The method that the class body binds to a name through \<open>_expr\<close>; \<open>None\<close> for a name
  that it does not bind that way (the methods written out further down, and every other
  name).
\<close>

definition bound_by_expr :: "string \<Rightarrow> ('a Column_scheme \<Rightarrow> pyval \<Rightarrow> Expr) option" where
  "bound_by_expr m =
     map_option (\<lambda>(opr, inv'). expr_method opr inv') (map_of column_methods m)"

definition Column_in :: "'a Column_scheme \<Rightarrow> pyval \<Rightarrow> Expr" where
  "Column_in self r = expr_method OPER_IN False self r"

definition Column_nin :: "'a Column_scheme \<Rightarrow> pyval \<Rightarrow> Expr" where
  "Column_nin self r = expr_method OPER_NOT_IN False self r"

definition Column_exists :: "'a Column_scheme \<Rightarrow> pyval \<Rightarrow> Expr" where
  "Column_exists self r = expr_method OPER_EXISTS False self r"

text \<open>The methods written out in the class body.\<close>

definition Column_eq :: "'a Column_scheme \<Rightarrow> pyval \<Rightarrow> Expr" where
  "Column_eq self r =
     Expr_init (as_value self) (if r = PNone then OPER_IS else OPER_EQ) r False False"

definition Column_ne :: "'a Column_scheme \<Rightarrow> pyval \<Rightarrow> Expr" where
  "Column_ne self r =
     Expr_init (as_value self) (if r = PNone then OPER_IS_NOT else OPER_NE) r False False"

definition is_null :: "'a Column_scheme \<Rightarrow> pyval \<Rightarrow> Expr" where
  "is_null self flag =
     Expr_init (as_value self) (if py_bool flag then OPER_IS else OPER_IS_NOT) PNone False False"

definition contains :: "'a Column_scheme \<Rightarrow> pyval \<Rightarrow> Expr" where
  "contains self r =
     Expr_init (as_value self) OPER_ILIKE (PStr (''%'' @ py_str r @ ''%'')) False False"

definition startswith :: "'a Column_scheme \<Rightarrow> pyval \<Rightarrow> Expr" where
  "startswith self r =
     Expr_init (as_value self) OPER_ILIKE (PStr (py_str r @ ''%'')) False False"

definition endswith :: "'a Column_scheme \<Rightarrow> pyval \<Rightarrow> Expr" where
  "endswith self r =
     Expr_init (as_value self) OPER_ILIKE (PStr (''%'' @ py_str r)) False False"

definition between :: "'a Column_scheme \<Rightarrow> pyval \<Rightarrow> pyval \<Rightarrow> Expr" where
  "between self low hig =
     Expr_init (as_value self) OPER_BETWEEN
       (PStr (Cnt_sql (Cnt_init (low, hig) OPER_AND False))) False False"

text \<open>
  The comparison \<open>self == item\<close> as Python evaluates it. When the class of \<open>item\<close> is
  a proper subclass of the class of \<open>self\<close>, the method of \<open>item\<close> is called first,
  with the operands swapped: \<open>item.__eq__(self)\<close>; in every other case it is
  \<open>self.__eq__(item)\<close>. \<open>Column.__eq__\<close> always returns an expression, so the first
  call decides.
\<close>

fun is_column :: "pyval \<Rightarrow> bool" where
  "is_column (PColumn cls n) = True"
| "is_column v = False"

definition py_eq :: "'a Column_scheme \<Rightarrow> pyval \<Rightarrow> Expr" where
  "py_eq self item =
     (case item of
        PColumn icls n \<Rightarrow>
          (if proper_subclass icls (f_cls self)
           then Column_eq \<lparr>f_cls = icls, f_name = n\<rparr> (as_value self)
           else Column_eq self item)
      | _ \<Rightarrow> Column_eq self item)"

text \<open>\<open>isinstance(item, slice)\<close>.\<close>

fun is_slice :: "pyval \<Rightarrow> bool" where
  "is_slice (PSlice start stop step) = True"
| "is_slice v = False"

text \<open>
  \<open>Column.__getitem__\<close>: a slice needs both its start and its stop and gives
  \<open>between\<close> (the step is not read); for anything else the result is \<open>self == item\<close>.
\<close>

definition getitem :: "'a Column_scheme \<Rightarrow> pyval \<Rightarrow> error + Expr" where
  "getitem self item =
     (case item of
        PSlice start stop step \<Rightarrow>
          (if start = PNone \<or> stop = PNone then Inl ValueError
           else Inr (between self start stop))
      | _ \<Rightarrow> Inr (py_eq self item))"

section \<open>Fields (types_/field.py)\<close>

text \<open>
  Class attributes \<open>_py_type\<close>, \<open>_db_type\<close> and \<open>_type_tpl\<close>, as inherited along the class
  hierarchy Column, FieldBase(Column), Tinyint(FieldBase), Smallint(Tinyint),
  Int(Tinyint), Bigint(Int), Text(FieldBase).
\<close>

datatype pytype = TInt | TStr

fun py_type :: "pyclass \<Rightarrow> pytype option" where
  "py_type CTinyint = Some TInt"
| "py_type CSmallint = Some TInt"
| "py_type CInt = Some TInt"
| "py_type CBigint = Some TInt"
| "py_type CText = Some TStr"
| "py_type c = None"

fun db_type :: "pyclass \<Rightarrow> pyval" where
  "db_type CTinyint = PStr ''tinyint''"
| "db_type CSmallint = PStr ''smallint''"
| "db_type CInt = PStr ''int''"
| "db_type CBigint = PStr ''bigint''"
| "db_type CText = PStr ''text''"
| "db_type c = PNone"

text \<open>\<open>isinstance(v, int)\<close> holds for booleans too; \<open>isinstance(v, bool)\<close> only for them.\<close>

fun isinstance :: "pyval \<Rightarrow> pytype \<Rightarrow> bool" where
  "isinstance (PInt i) TInt = True"
| "isinstance (PBool b) TInt = True"
| "isinstance (PStr x) TStr = True"
| "isinstance v t = False"

fun is_bool :: "pyval \<Rightarrow> bool" where
  "is_bool (PBool b) = True"
| "is_bool v = False"

text \<open>
  Attribute and name resolution. \<open>class_attrs\<close> lists, class by class, every name its
  body defines (slots, class attributes, methods, properties) and every instance
  attribute its constructor assigns; \<open>mro\<close> is the method resolution order above. Reading an
  attribute that no class of the order defines raises \<open>AttributeError\<close>; reading a
  module-level name that the module does not define raises \<open>NameError\<close>.
\<close>

fun class_attrs :: "pyclass \<Rightarrow> string list" where
  "class_attrs CColumn =
     [''__slots__'', ''name'', ''_expr'', ''__init__'', ''__repr__'', ''__str__'',
      ''__eq__'', ''__ne__'', ''is_null'', ''contains'', ''startswith'', ''endswith'',
      ''between'', ''__getitem__''] @ map fst column_methods"
| "class_attrs CFieldBase =
     [''__slots__'', ''null'', ''default'', ''comment'', ''_seq_num'', ''_py_type'',
      ''_db_type'', ''_field_counter'', ''_spaces'', ''__init__'', ''_allow_null'',
      ''_type'', ''_stmt'', ''sql'', ''auto'', ''seq_num'']"
| "class_attrs CTinyint =
     [''__slots__'', ''unsigned'', ''length'', ''_py_type'', ''_db_type'', ''_type_tpl'',
      ''__init__'', ''_type'']"
| "class_attrs CSmallint = [''_db_type'']"
| "class_attrs CInt = [''_db_type'', ''__init__'', ''primary_key'']"
| "class_attrs CBigint = [''_db_type'']"
| "class_attrs CText =
     [''_py_type'', ''_db_type'', ''_type_tpl'', ''__init__'', ''encoding'', ''_type'',
      ''_stmt'']"

definition declared :: "pyclass \<Rightarrow> string \<Rightarrow> bool" where
  "declared c a = (a \<in> set (concat (map class_attrs (mro c))))"

definition read_attr :: "pyclass \<Rightarrow> string \<Rightarrow> 'a \<Rightarrow> error + 'a" where
  "read_attr c a v = (if declared c a then Inr v else Inl AttributeError)"

definition module_names :: "string list" where
  "module_names =
     [''warnings'', ''Iterable'', ''TrodDict'', ''OPER'', ''Cnt'', ''Expr'', ''Column'',
      ''FieldBase'', ''Defi'', ''Tinyint'', ''Smallint'', ''Int'', ''Bigint'', ''Text'']"

text \<open>
  \<open>FieldBase.__init__(self, name, null, default, comment)\<close>: the check of \<open>null\<close> comes
  first; then the attributes are stored, the class counter is advanced and its new value
  becomes the sequence number.
\<close>

record FieldBase = Column +
  f_null :: pyval
  f_default :: pyval
  f_comment :: pyval
  f_seq_num :: int

definition FieldBase_init ::
  "pyclass \<Rightarrow> pyval \<Rightarrow> pyval \<Rightarrow> pyval \<Rightarrow> pyval \<Rightarrow> pystate \<Rightarrow> (error + FieldBase) \<times> pystate" where
  "FieldBase_init cls nm null dflt comment s =
     (if \<not> is_bool null then (Inl ValueError, s)
      else (let s' = s\<lparr>field_counter := field_counter s + 1\<rparr>
            in (Inr \<lparr>f_cls = cls, f_name = nm, f_null = null, f_default = dflt,
                     f_comment = comment, f_seq_num = field_counter s'\<rparr>, s')))"

text \<open>\<open>Tinyint.__init__\<close>, which \<open>Smallint\<close> inherits.\<close>

record Tinyint = FieldBase +
  f_unsigned :: pyval
  f_length :: pyval

definition Tinyint_init ::
  "pyclass \<Rightarrow> pyval \<Rightarrow> pyval \<Rightarrow> pyval \<Rightarrow> pyval \<Rightarrow> pyval \<Rightarrow> pyval \<Rightarrow> pystate
     \<Rightarrow> (error + Tinyint) \<times> pystate" where
  "Tinyint_init cls len unsigned null dflt comment nm s =
     (case FieldBase_init cls nm null dflt comment s of
        (Inl err, s') \<Rightarrow> (Inl err, s')
      | (Inr b, s') \<Rightarrow>
          (Inr \<lparr>f_cls = f_cls b, f_name = f_name b, f_null = f_null b,
                f_default = f_default b, f_comment = f_comment b, f_seq_num = f_seq_num b,
                f_unsigned = unsigned, f_length = len\<rparr>, s'))"

text \<open>
  \<open>Int.__init__\<close>, which \<open>Bigint\<close> inherits: with \<open>primary_key is True\<close> a warning is
  issued if \<open>null\<close> is true, and \<open>null\<close> and \<open>default\<close> are overwritten.
\<close>

record IntField = Tinyint +
  f_primary_key :: pyval

definition Int_init ::
  "pyclass \<Rightarrow> pyval \<Rightarrow> pyval \<Rightarrow> pyval \<Rightarrow> pyval \<Rightarrow> pyval \<Rightarrow> pyval \<Rightarrow> pyval \<Rightarrow> pystate
     \<Rightarrow> (error + IntField) \<times> pystate" where
  "Int_init cls len unsigned null primary_key dflt comment nm s =
     (case Tinyint_init cls len unsigned null dflt comment nm s of
        (Inl err, s') \<Rightarrow> (Inl err, s')
      | (Inr t, s') \<Rightarrow>
          (let self = \<lparr>f_cls = f_cls t, f_name = f_name t, f_null = f_null t,
                        f_default = f_default t, f_comment = f_comment t,
                        f_seq_num = f_seq_num t, f_unsigned = f_unsigned t,
                        f_length = f_length t, f_primary_key = primary_key\<rparr>
           in if primary_key = PBool True then
                (Inr (self\<lparr>f_null := PBool False, f_default := PNone\<rparr>),
                 if py_bool (f_null self)
                 then s'\<lparr>warnings := warnings s' @ [''Primary_key is not allow null, use default'']\<rparr>
                 else s')
              else (Inr self, s')))"

text \<open>\<open>Text.__init__(self, encoding, null, comment, name)\<close>: the default is always \<open>None\<close>.\<close>

record Text = FieldBase +
  f_encoding :: pyval

definition Text_init ::
  "pyval \<Rightarrow> pyval \<Rightarrow> pyval \<Rightarrow> pyval \<Rightarrow> pystate \<Rightarrow> (error + Text) \<times> pystate" where
  "Text_init encoding null comment nm s =
     (case FieldBase_init CText nm null PNone comment s of
        (Inl err, s') \<Rightarrow> (Inl err, s')
      | (Inr b, s') \<Rightarrow>
          (Inr \<lparr>f_cls = f_cls b, f_name = f_name b, f_null = f_null b,
                f_default = f_default b, f_comment = f_comment b, f_seq_num = f_seq_num b,
                f_encoding = encoding\<rparr>, s'))"

text \<open>The properties \<open>_allow_null\<close> and \<open>seq_num\<close>.\<close>

definition FieldBase_allow_null :: "'a FieldBase_scheme \<Rightarrow> bool" where
  "FieldBase_allow_null self = (f_null self = PBool True \<or> f_null self = PInt 1)"

definition seq_num :: "'a FieldBase_scheme \<Rightarrow> int" where
  "seq_num self = f_seq_num self"

text \<open>
  The property \<open>_type\<close>: not implemented on the base class; \<open>{type}({length})\<close> with an
  optional \<open>unsigned\<close> for the integer classes; \<open>{type}\<close> for \<open>Text\<close>.
\<close>

definition FieldBase_type :: "'a FieldBase_scheme \<Rightarrow> error + string" where
  "FieldBase_type self = Inl NotImplementedError"

definition Tinyint_type :: "'a Tinyint_scheme \<Rightarrow> error + string" where
  "Tinyint_type self =
     (case format_tpl ''{type}({length})''
             [(''type'', db_type (f_cls self)), (''length'', f_length self)] of
        Inl err \<Rightarrow> Inl err
      | Inr data_type \<Rightarrow>
          Inr (if f_unsigned self = PBool True then data_type @ '' unsigned'' else data_type))"

definition Text_type :: "'a Text_scheme \<Rightarrow> error + string" where
  "Text_type self = format_tpl ''{type}'' [(''type'', db_type (f_cls self))]"

text \<open>
  The property \<open>FieldBase._stmt\<close>. It reads \<open>self.allow_null\<close> (the property defined
  above is \<open>_allow_null\<close>) and, for a default that is not \<open>None\<close>, the module-level name
  \<open>Float\<close>, which the module does not define (no class above could be an instance of
  it); \<open>an\<close> stands for what \<open>self.allow_null\<close> holds on an object that has it.
\<close>

definition comment_clause :: "'a FieldBase_scheme \<Rightarrow> string list" where
  "comment_clause self =
     (if py_bool (f_comment self)
      then [''COMMENT '' @ [CHR 0x27] @ py_str (f_comment self) @ [CHR 0x27]] else [])"

definition FieldBase_stmt ::
  "pyval \<Rightarrow> 'a FieldBase_scheme \<Rightarrow> pystate \<Rightarrow> (error + string) \<times> pystate" where
  "FieldBase_stmt an self s =
     (case read_attr (f_cls self) ''allow_null'' an of
        Inl err \<Rightarrow> (Inl err, s)
      | Inr a \<Rightarrow>
          (let stmt_list = [if py_bool a then ''NULL'' else ''NOT NULL'']
           in if f_default self \<noteq> PNone then
                (if ''Float'' \<notin> set module_names then (Inl NameError, s)
                 else (case py_type (f_cls self) of
                         None \<Rightarrow> (Inl TypeError, s)
                       | Some t \<Rightarrow>
                           (if \<not> isinstance (f_default self) t then (Inl ValueError, s)
                            else (let d = (if isinstance (f_default self) TStr
                                           then [CHR 0x27] @ py_str (f_default self) @ [CHR 0x27]
                                           else py_str (f_default self))
                                  in (Inr (join '' '' (stmt_list @ [''DEFAULT '' @ d]
                                                        @ comment_clause self)), s)))))
              else if \<not> py_bool a then
                (Inr (join '' '' (stmt_list @ comment_clause self)),
                 s\<lparr>warnings := warnings s @
                      [''Not to give default value for NOT NULL field '' @ py_str (f_name self)]\<rparr>)
              else (Inr (join '' '' (stmt_list @ comment_clause self)), s)))"

text \<open>The property \<open>Text._stmt\<close>.\<close>

definition Text_stmt :: "pyval \<Rightarrow> 'a Text_scheme \<Rightarrow> error + string" where
  "Text_stmt an self =
     (let stmt = (if f_encoding self \<noteq> PNone
                  then [''CHARACTER SET '' @ py_str (f_encoding self)] else [])
      in case read_attr (f_cls self) ''allow_null'' an of
           Inl err \<Rightarrow> Inl err
         | Inr a \<Rightarrow>
             Inr (join '' '' (stmt @ [if py_bool a then ''NULL'' else ''NOT NULL'']
                              @ comment_clause self)))"

text \<open>
  \<open>FieldBase.sql\<close>: the f-string \<open>"{self.type} {self.stmt}"\<close>, whose two reads are of the
  attributes \<open>type\<close> and \<open>stmt\<close> (left first); \<open>ty\<close> and \<open>st\<close> stand for what they hold on
  an object that has them.
\<close>

definition FieldBase_sql :: "pyval \<Rightarrow> pyval \<Rightarrow> 'a FieldBase_scheme \<Rightarrow> error + string" where
  "FieldBase_sql ty st self =
     (case read_attr (f_cls self) ''type'' ty of
        Inl err \<Rightarrow> Inl err
      | Inr t \<Rightarrow>
          (case read_attr (f_cls self) ''stmt'' st of
             Inl err \<Rightarrow> Inl err
           | Inr x \<Rightarrow> Inr (py_str t @ '' '' @ py_str x)))"


section \<open>Sequences of declarations\<close>

text \<open>
  A model body declares fields and keys one after the other. Each declaration is one
  constructor call with its arguments in the order of the constructor's signature (for
  a key: column, comment, name and the text of the declaring line); \<open>construct\<close> runs
  it and reports the sequence number that the new object received, if an object with
  one was built.
\<close>

datatype decl =
    NewFieldBase pyval pyval pyval pyval
  | NewTinyint pyval pyval pyval pyval pyval pyval
  | NewSmallint pyval pyval pyval pyval pyval pyval
  | NewInt pyval pyval pyval pyval pyval pyval pyval
  | NewBigint pyval pyval pyval pyval pyval pyval pyval
  | NewText pyval pyval pyval pyval
  | NewKey pyval pyval pyval string
  | NewUniqueKey pyval pyval pyval string

definition drawn :: "(error + 'a FieldBase_scheme) \<times> pystate \<Rightarrow> int option \<times> pystate" where
  "drawn r = (case r of (Inl err, s') \<Rightarrow> (None, s') | (Inr f, s') \<Rightarrow> (Some (seq_num f), s'))"

fun construct :: "decl \<Rightarrow> pystate \<Rightarrow> int option \<times> pystate" where
  "construct (NewFieldBase nm null dflt comment) s =
     drawn (FieldBase_init CFieldBase nm null dflt comment s)"
| "construct (NewTinyint len unsigned null dflt comment nm) s =
     drawn (Tinyint_init CTinyint len unsigned null dflt comment nm s)"
| "construct (NewSmallint len unsigned null dflt comment nm) s =
     drawn (Tinyint_init CSmallint len unsigned null dflt comment nm s)"
| "construct (NewInt len unsigned null primary_key dflt comment nm) s =
     drawn (Int_init CInt len unsigned null primary_key dflt comment nm s)"
| "construct (NewBigint len unsigned null primary_key dflt comment nm) s =
     drawn (Int_init CBigint len unsigned null primary_key dflt comment nm s)"
| "construct (NewText encoding null comment nm) s =
     drawn (Text_init encoding null comment nm s)"
| "construct (NewKey column comment nm text) s =
     (None, snd (BaseIndex_init CKey column comment nm text s))"
| "construct (NewUniqueKey column comment nm text) s =
     (None, snd (BaseIndex_init CUniqueKey column comment nm text s))"

fun construct_all :: "decl list \<Rightarrow> pystate \<Rightarrow> int option list \<times> pystate" where
  "construct_all [] s = ([], s)"
| "construct_all (d # ds) s =
     (case construct d s of
        (n, s') \<Rightarrow> (case construct_all ds s' of (ns, s'') \<Rightarrow> (n # ns, s'')))"

text \<open>The sequence numbers handed out, in order of declaration.\<close>

fun numbers :: "int option list \<Rightarrow> int list" where
  "numbers [] = []"
| "numbers (None # ns) = numbers ns"
| "numbers (Some n # ns) = n # numbers ns"

fun is_key :: "decl \<Rightarrow> bool" where
  "is_key (NewKey column comment nm text) = True"
| "is_key (NewUniqueKey column comment nm text) = True"
| "is_key d = False"

section \<open>Auxiliary facts\<close>

text \<open>How an expression renders, by operator kind and \<open>logic\<close> flag.\<close>

lemma Expr_sql_plain:
  "op e \<notin> {OPER_IN, OPER_NOT_IN, OPER_EXISTS} \<Longrightarrow> \<not> logic e \<Longrightarrow>
   Expr_sql e = Inr (py_str (lhs e) @ '' '' @ op e @ '' '' @ py_str (rhs e), e)"
  by (simp add: Expr_sql_def Cnt_sql_def Cnt_init_def)

lemma Expr_sql_logic:
  "op e \<notin> {OPER_IN, OPER_NOT_IN, OPER_EXISTS} \<Longrightarrow> logic e \<Longrightarrow>
   Expr_sql e =
     Inr (''('' @ py_str (lhs e) @ '') '' @ op e @ '' ('' @ py_str (rhs e) @ '')'', e)"
  by (simp add: Expr_sql_def Cnt_sql_def Cnt_init_def)

lemma Expr_sql_not_iterable:
  "op e \<in> {OPER_IN, OPER_NOT_IN, OPER_EXISTS} \<Longrightarrow> \<not> is_iterable (rhs e) \<Longrightarrow>
   Expr_sql e = Inl ValueError"
  by (simp add: Expr_sql_def)

text \<open>The methods of the table and the two comparison methods all go through \<open>expr_method\<close>.\<close>

lemma bound_by_expr_table:
  "map_of column_methods m = Some (opr, inv') \<Longrightarrow>
   bound_by_expr m = Some (expr_method opr inv')"
  by (simp add: bound_by_expr_def)

lemma Column_eq_as_method:
  "Column_eq c v = expr_method (if v = PNone then OPER_IS else OPER_EQ) False c v"
  by (simp add: Column_eq_def expr_method_def)

lemma Column_ne_as_method:
  "Column_ne c v = expr_method (if v = PNone then OPER_IS_NOT else OPER_NE) False c v"
  by (simp add: Column_ne_def expr_method_def)

text \<open>No class of the module defines the attributes that \<open>sql\<close> and \<open>_stmt\<close> read.\<close>

lemma undeclared_reads:
  "\<not> declared c ''type''" "\<not> declared c ''stmt''" "\<not> declared c ''allow_null''"
  by (cases c; simp add: declared_def column_methods_def)+

lemma FieldBase_sql_raises: "FieldBase_sql ty st self = Inl AttributeError"
  by (simp add: FieldBase_sql_def read_attr_def undeclared_reads)

lemma FieldBase_stmt_raises: "FieldBase_stmt an self s = (Inl AttributeError, s)"
  by (simp add: FieldBase_stmt_def read_attr_def undeclared_reads)

lemma Text_stmt_raises: "Text_stmt an self = Inl AttributeError"
  by (simp add: Text_stmt_def read_attr_def undeclared_reads)

text \<open>The type clause of the integer classes and of \<open>Text\<close>.\<close>

lemma Tinyint_type_text:
  "Tinyint_type self =
     Inr (py_str (db_type (f_cls self)) @ ''('' @ py_str (f_length self) @ '')'' @
          (if f_unsigned self = PBool True then '' unsigned'' else []))"
  by (simp add: Tinyint_type_def)

lemma Text_type_text: "Text_type self = Inr (py_str (db_type (f_cls self)))"
  by (simp add: Text_type_def)

text \<open>One construction: what it does to the two counters.\<close>

lemma construct_step:
  "construct d s = (r, s') \<Longrightarrow>
   attr_key_num s' = attr_key_num s \<and>
   (case r of
      None \<Rightarrow> field_counter s' = field_counter s
    | Some n \<Rightarrow> n = field_counter s + 1 \<and> field_counter s' = field_counter s + 1)"
  by (cases d)
     (auto simp: drawn_def seq_num_def FieldBase_init_def Tinyint_init_def Int_init_def
        Text_init_def BaseIndex_init_def Let_def split: if_splits)

lemma construct_all_numbers:
  "construct_all ds s = (ns, s') \<Longrightarrow>
   numbers ns = [field_counter s + 1 .. field_counter s'] \<and>
   field_counter s \<le> field_counter s' \<and> attr_key_num s' = attr_key_num s"
proof (induction ds arbitrary: s ns s')
  case Nil
  then show ?case by simp
next
  case (Cons d ds)
  obtain n s1 where c: "construct d s = (n, s1)" by (cases "construct d s")
  obtain ms s2 where ca: "construct_all ds s1 = (ms, s2)" by (cases "construct_all ds s1")
  from Cons.prems c ca have ns: "ns = n # ms" and s': "s' = s2" by simp_all
  note ih = Cons.IH [OF ca]
  note st = construct_step [OF c]
  show ?case
  proof (cases n)
    case None
    with ih st ns s' show ?thesis by simp
  next
    case (Some k)
    with ih st ns s' show ?thesis by (simp add: upto_rec1 [of "field_counter s + 1"])
  qed
qed

lemma construct_key: "is_key d \<Longrightarrow> construct d s = (None, s)"
  by (cases d) (simp_all add: BaseIndex_init_def Let_def)

section \<open>Rendering of value expressions\<close>

text \<open>
  Claim C1 says that every value expression built from a column and an operand renders as
  \<open>(<left> <OP> <right>);\<close>, with one enclosing parenthesis pair, a terminating semicolon
  and every column name back-quoted. \<open>Expr.sql\<close> does none of the three. What holds: for
  every operator method of a column, the text is the column's name as it stands, the
  operator token and the operand's \<open>str\<close> form (a column operand gives its name),
  separated by single spaces, in operand order; for \<open>IN\<close>, \<open>NOT IN\<close> and \<open>EXISTS\<close>
  with an iterable operand the right side is the \<open>str\<close> form of its tuple.
\<close>

theorem value_expression_text:
  "(opr \<notin> {OPER_IN, OPER_NOT_IN, OPER_EXISTS} \<longrightarrow>
      map_sum id fst (Expr_sql (expr_method opr False c v)) =
        Inr (py_str (f_name c) @ '' '' @ opr @ '' '' @ py_str (name_if_column v)) \<and>
      map_sum id fst (Expr_sql (expr_method opr True c v)) =
        Inr (py_str (name_if_column v) @ '' '' @ opr @ '' '' @ py_str (f_name c))) \<and>
   (opr \<in> {OPER_IN, OPER_NOT_IN, OPER_EXISTS} \<longrightarrow> is_iterable (name_if_column v) \<longrightarrow>
      map_sum id fst (Expr_sql (expr_method opr False c v)) =
        Inr (py_str (f_name c) @ '' '' @ opr @ '' '' @ py_str (py_tuple (name_if_column v))))"
  by (simp add: expr_method_def Expr_init_def as_value_def Expr_sql_def Cnt_sql_def
        Cnt_init_def Let_def)

theorem value_expression_text_witness:
  "map_sum id fst (Expr_sql (expr_method OPER_GTE False (Column_init (PStr ''age'')) (PInt 20))) =
     Inr ''age >= 20'' \<and>
   map_sum id fst (Expr_sql (expr_method OPER_SUB True (Column_init (PStr ''age'')) (PInt 100))) =
     Inr ''100 - age'' \<and>
   map_sum id fst
     (Expr_sql (expr_method OPER_IN False (Column_init (PStr ''age'')) (PList [PInt 1, PInt 2]))) =
     Inr ''age IN (1, 2)''"
proof -
  have a: "OPER_GTE \<notin> {OPER_IN, OPER_NOT_IN, OPER_EXISTS}" by (simp add: OPER_defs)
  have b: "OPER_SUB \<notin> {OPER_IN, OPER_NOT_IN, OPER_EXISTS}" by (simp add: OPER_defs)
  have c: "OPER_IN \<in> {OPER_IN, OPER_NOT_IN, OPER_EXISTS}" by simp
  have digits: "str_int 20 = ''20''" "str_int 100 = ''100''" "str_int 1 = ''1''"
    "str_int 2 = ''2''"
    by code_simp+
  show ?thesis
    using value_expression_text [of OPER_GTE "Column_init (PStr ''age'')" "PInt 20"]
          value_expression_text [of OPER_SUB "Column_init (PStr ''age'')" "PInt 100"]
          value_expression_text [of OPER_IN "Column_init (PStr ''age'')" "PList [PInt 1, PInt 2]"]
          a b c
    by (simp add: Column_init_def digits OPER_defs)
qed

text \<open>
  The comparison \<open>age > 10\<close> renders as \<open>age > 10\<close>: the text does not open with a
  parenthesis, does not end with a semicolon and holds no back-quote.
\<close>

theorem value_expression_counterexample:
  "map_sum id fst (Expr_sql (expr_method OPER_GT False (Column_init (PStr ''age'')) (PInt 10))) =
     Inr ''age > 10'' \<and>
   map_sum id fst (Expr_sql (expr_method OPER_GT False (Column_init (PStr ''age'')) (PInt 10))) \<noteq>
     Inr ''(`age` > 10);'' \<and>
   hd ''age > 10'' \<noteq> CHR ''('' \<and> last ''age > 10'' \<noteq> CHR '';'' \<and>
   CHR 0x60 \<notin> set ''age > 10''"
  by code_simp

section \<open>Rendering of fields\<close>

text \<open>
  Claim C2 says that \<open>sql()\<close> of a named field returns its DDL text: the back-quoted name,
  the type clause, the null clause and the optional DEFAULT and COMMENT clauses. On the
  field \<open>Tinyint(4, name='ty')\<close> the constructor succeeds and the property \<open>_type\<close> gives
  \<open>tinyint(4)\<close>, but \<open>sql()\<close> raises \<open>AttributeError\<close>: it reads \<open>self.type\<close> and
  \<open>self.stmt\<close>, and \<open>_stmt\<close> reads \<open>self.allow_null\<close>, while the properties are named
  \<open>_type\<close>, \<open>_stmt\<close> and \<open>_allow_null\<close>.
\<close>

theorem field_sql_raises:
  "fst (Tinyint_init CTinyint (PInt 4) (PBool False) (PBool True) PNone (PStr []) (PStr ''ty'')
          init_state) =
     Inr \<lparr>f_cls = CTinyint, f_name = PStr ''ty'', f_null = PBool True, f_default = PNone,
           f_comment = PStr [], f_seq_num = 1, f_unsigned = PBool False, f_length = PInt 4\<rparr> \<and>
   Tinyint_type \<lparr>f_cls = CTinyint, f_name = PStr ''ty'', f_null = PBool True, f_default = PNone,
           f_comment = PStr [], f_seq_num = 1, f_unsigned = PBool False, f_length = PInt 4\<rparr> =
     Inr ''tinyint(4)'' \<and>
   FieldBase_sql ty st \<lparr>f_cls = CTinyint, f_name = PStr ''ty'', f_null = PBool True,
           f_default = PNone, f_comment = PStr [], f_seq_num = 1, f_unsigned = PBool False,
           f_length = PInt 4\<rparr> =
     Inl AttributeError \<and>
   fst (FieldBase_stmt an \<lparr>f_cls = CTinyint, f_name = PStr ''ty'', f_null = PBool True,
           f_default = PNone, f_comment = PStr [], f_seq_num = 1, f_unsigned = PBool False,
           f_length = PInt 4\<rparr> init_state) =
     Inl AttributeError"
proof -
  have four: "str_int 4 = ''4''" by code_simp
  show ?thesis
    by (simp add: Tinyint_init_def FieldBase_init_def init_state_def Let_def
          Tinyint_type_text four FieldBase_sql_raises FieldBase_stmt_raises)
qed

section \<open>Primary keys and defaults\<close>

text \<open>
  Claim C3 says that constructing an \<open>Int\<close> or \<open>Bigint\<close> with \<open>primary_key=True\<close> and a
  default other than \<open>None\<close> raises the invalid-field-configuration error. The constructor
  raises nothing: whenever \<open>null\<close> is a boolean it succeeds for every default, stores
  \<open>null = False\<close> and \<open>default = None\<close>, and warns if \<open>null\<close> was true.
\<close>

theorem primary_key_discards_default:
  "is_bool null \<Longrightarrow>
   Int_init cls len unsigned null (PBool True) dflt comment nm s =
     (Inr \<lparr>f_cls = cls, f_name = nm, f_null = PBool False, f_default = PNone,
           f_comment = comment, f_seq_num = field_counter s + 1, f_unsigned = unsigned,
           f_length = len, f_primary_key = PBool True\<rparr>,
      s\<lparr>field_counter := field_counter s + 1,
        warnings := warnings s @
          (if null = PBool True then [''Primary_key is not allow null, use default'']
           else [])\<rparr>)"
  by (cases null) (auto simp: FieldBase_init_def Tinyint_init_def Int_init_def Let_def)

theorem primary_key_discards_default_witness:
  "is_bool (PBool False) \<and>
   Int_init CBigint (PInt 20) (PBool False) (PBool False) (PBool True) (PInt 1) (PStr [])
       (PStr ''bigint'') init_state =
     (Inr \<lparr>f_cls = CBigint, f_name = PStr ''bigint'', f_null = PBool False, f_default = PNone,
           f_comment = PStr [], f_seq_num = 1, f_unsigned = PBool False,
           f_length = PInt 20, f_primary_key = PBool True\<rparr>,
      \<lparr>field_counter = 1, attr_key_num = 0, warnings = []\<rparr>)"
proof -
  have h: "is_bool (PBool False)" by simp
  from primary_key_discards_default [OF h, of CBigint "PInt 20" "PBool False" "PInt 1"
      "PStr []" "PStr ''bigint''" init_state]
  show ?thesis by (simp add: init_state_def)
qed

text \<open>\<open>Int(11, primary_key=True, default=1, name='int')\<close> is built, with its default dropped.\<close>

theorem primary_key_default_counterexample:
  "fst (Int_init CInt (PInt 11) (PBool False) (PBool True) (PBool True) (PInt 1) (PStr [])
          (PStr ''int'') init_state) =
     Inr \<lparr>f_cls = CInt, f_name = PStr ''int'', f_null = PBool False, f_default = PNone,
           f_comment = PStr [], f_seq_num = 1, f_unsigned = PBool False,
           f_length = PInt 11, f_primary_key = PBool True\<rparr> \<and>
   \<not> isl (fst (Int_init CInt (PInt 11) (PBool False) (PBool True) (PBool True) (PInt 1)
                  (PStr []) (PStr ''int'') init_state))"
  by (simp add: FieldBase_init_def Tinyint_init_def Int_init_def init_state_def Let_def)

section \<open>Rendering of keys\<close>

text \<open>
  Claim C4 says that a key with an empty comment renders \<open>KEY `name` (`c1`, `c2`);\<close> with
  no COMMENT clause, that a comment adds \<open>COMMENT 'text'\<close> before the terminator, and
  that the unique key differs only by its \<open>UNIQUE KEY\<close> prefix. \<open>build\<close> fills one fixed
  template: the text is \<open>KEY `name` (`c1`,`c2`) COMMENT 'text'\<close>, with the given name
  (or, without one, what precedes the first \<open>=\<close> of the declaring line), the given
  columns in their order, each back-quoted, joined by a bare comma, the COMMENT clause
  always there (\<open>COMMENT ''\<close> for an empty comment) and no terminator; the unique key
  is the same text after \<open>UNIQUE \<close>.
\<close>

theorem key_build_text:
  "build (fst (BaseIndex_init CKey column comment nm text s)) =
     Inr (''KEY `'' @
          (if nm = PNone then strip (slice_to text (find_char CHR ''='' text)) else py_str nm) @
          ''` ('' @
          join '','' (map (\<lambda>c. ''`'' @ py_str c @ ''`'')
                        (case column of PList cs \<Rightarrow> cs | _ \<Rightarrow> [column])) @
          '') COMMENT '' @ [CHR 0x27] @ py_str comment @ [CHR 0x27]) \<and>
   build (fst (BaseIndex_init CUniqueKey column comment nm text s)) =
     Inr (''UNIQUE KEY `'' @
          (if nm = PNone then strip (slice_to text (find_char CHR ''='' text)) else py_str nm) @
          ''` ('' @
          join '','' (map (\<lambda>c. ''`'' @ py_str c @ ''`'')
                        (case column of PList cs \<Rightarrow> cs | _ \<Rightarrow> [column])) @
          '') COMMENT '' @ [CHR 0x27] @ py_str comment @ [CHR 0x27]) \<and>
   build (fst (BaseIndex_init CKey (PList [PStr c1, PStr c2]) (PStr cm) (PStr n) text s)) =
     Inr (''KEY `'' @ n @ ''` (`'' @ c1 @ ''`,`'' @ c2 @ ''`) COMMENT '' @
          [CHR 0x27] @ cm @ [CHR 0x27]) \<and>
   build (fst (BaseIndex_init CUniqueKey (PList [PStr c1, PStr c2]) (PStr cm) (PStr n) text s)) =
     Inr (''UNIQUE KEY `'' @ n @ ''` (`'' @ c1 @ ''`,`'' @ c2 @ ''`) COMMENT '' @
          [CHR 0x27] @ cm @ [CHR 0x27]) \<and>
   build (fst (BaseIndex_init CKey (PStr c1) (PStr []) (PStr n) text s)) =
     Inr (''KEY `'' @ n @ ''` (`'' @ c1 @ ''`) COMMENT '' @ [CHR 0x27, CHR 0x27])"
proof -
  have gen: "\<And>cls column comment nm. idx_options (fst (BaseIndex_init cls column comment nm text s)) =
     [(''key_name'',
       if nm = PNone then PStr (strip (slice_to text (find_char CHR ''='' text))) else nm),
      (''cols'', PStr (join '','' (map (\<lambda>c. ''`'' @ py_str c @ ''`'')
                        (case column of PList cs \<Rightarrow> cs | _ \<Rightarrow> [column])))),
      (''comment'', comment)]"
    by (simp add: BaseIndex_init_def Let_def)
  have cls: "\<And>cls column comment nm. idx_class (fst (BaseIndex_init cls column comment nm text s)) = cls"
    by (simp add: BaseIndex_init_def Let_def)
  show ?thesis
    by (simp add: build_def gen cls)
qed

theorem key_build_text_witness:
  "build (fst (BaseIndex_init CKey (PList [PStr ''c1'', PStr ''c2'']) (PStr ''both'')
                 (PStr ''idx'') [] init_state)) =
     Inr (''KEY `idx` (`c1`,`c2`) COMMENT '' @ [CHR 0x27] @ ''both'' @ [CHR 0x27]) \<and>
   build (fst (BaseIndex_init CUniqueKey (PList [PStr ''c1'', PStr ''c2'']) (PStr ''both'')
                 (PStr ''idx'') [] init_state)) =
     Inr (''UNIQUE KEY `idx` (`c1`,`c2`) COMMENT '' @ [CHR 0x27] @ ''both'' @ [CHR 0x27]) \<and>
   build (fst (BaseIndex_init CKey (PStr ''phone'') (PStr ''p'') PNone
                 ''  idx_phone = Key(phone)'' init_state)) =
     Inr (''KEY `idx_phone` (`phone`) COMMENT '' @ [CHR 0x27] @ ''p'' @ [CHR 0x27])"
proof -
  have nm: "strip (slice_to ''  idx_phone = Key(phone)''
                     (find_char CHR ''='' ''  idx_phone = Key(phone)'')) = ''idx_phone''"
    by code_simp
  have nm': "strip (slice_to ''  idx_phone = Key(phone)'' 12) = ''idx_phone''"
    by code_simp
  show ?thesis
    using key_build_text [of "PList [PStr ''c1'', PStr ''c2'']" "PStr ''both''" "PStr ''idx''" "[]"
            init_state "''c1''" "''c2''" "''both''" "''idx''"]
          key_build_text [of "PStr ''phone''" "PStr ''p''" PNone "''  idx_phone = Key(phone)''"
            init_state "''c1''" "''c2''" "''both''" "''idx''"]
    by (simp add: nm nm')
qed

text \<open>With an empty comment the text still ends in \<open>COMMENT ''\<close>.\<close>

theorem key_build_counterexample:
  "build (fst (BaseIndex_init CKey (PList [PStr ''c1'', PStr ''c2'']) (PStr []) (PStr ''name'')
                 [] init_state)) =
     Inr (''KEY `name` (`c1`,`c2`) COMMENT '' @ [CHR 0x27, CHR 0x27]) \<and>
   build (fst (BaseIndex_init CKey (PList [PStr ''c1'', PStr ''c2'']) (PStr []) (PStr ''name'')
                 [] init_state)) \<noteq>
     Inr ''KEY `name` (`c1`, `c2`);''"
  by code_simp

section \<open>Sequence numbers\<close>

text \<open>
  Claim C5 says that fields and keys draw their sequence numbers from one shared counter
  that every field or key construction advances exactly once, so that interleaved fields
  and keys get distinct numbers in declaration order. There are two counters, and
  constructing a key touches neither. What holds for any sequence of declarations: the
  fields that are built receive the consecutive numbers after the field counter's start
  value, in declaration order (so strictly increasing and distinct), the field counter
  ends advanced by the number of fields built, and a key construction draws no number
  and leaves the state as it was; the key counter moves only when the property
  \<open>_attr_key\<close> is read, by one per read, and that read leaves the field counter alone.
\<close>

theorem field_sequence_numbers:
  "construct_all ds s = (ns, s') \<Longrightarrow>
   numbers ns = [field_counter s + 1 .. field_counter s'] \<and>
   sorted_wrt (<) (numbers ns) \<and> distinct (numbers ns) \<and>
   field_counter s' = field_counter s + int (length (numbers ns)) \<and>
   attr_key_num s' = attr_key_num s \<and>
   (is_key d \<longrightarrow> construct d s = (None, s)) \<and>
   fst (attr_key k s) = attr_key_num s + 1 \<and>
   attr_key_num (snd (attr_key k s)) = attr_key_num s + 1 \<and>
   field_counter (snd (attr_key k s)) = field_counter s"
proof -
  assume ca: "construct_all ds s = (ns, s')"
  note n = construct_all_numbers [OF ca]
  have "sorted_wrt (<) [field_counter s + 1 .. field_counter s']"
    using strict_sorted_iff [of "[field_counter s + 1 .. field_counter s']"] by simp
  with n show ?thesis
    by (simp add: construct_key attr_key_def)
qed

theorem field_sequence_numbers_witness:
  "construct_all
     [NewTinyint (PInt 4) (PBool False) (PBool True) PNone (PStr []) (PStr ''ty''),
      NewKey (PStr ''ty'') (PStr []) (PStr ''idx_ty'') [],
      NewText PNone (PBool True) (PStr []) (PStr ''body'')] init_state =
     ([Some 1, None, Some 2], \<lparr>field_counter = 2, attr_key_num = 0, warnings = []\<rparr>) \<and>
   numbers [Some 1, None, Some 2] = [0 + 1 .. 2] \<and>
   sorted_wrt (<) (numbers [Some 1, None, Some 2]) \<and>
   distinct (numbers [Some 1, None, Some 2]) \<and>
   is_key (NewKey (PStr ''ty'') (PStr []) (PStr ''idx_ty'') []) \<and>
   construct (NewKey (PStr ''ty'') (PStr []) (PStr ''idx_ty'') []) init_state = (None, init_state)"
proof -
  have ca: "construct_all
     [NewTinyint (PInt 4) (PBool False) (PBool True) PNone (PStr []) (PStr ''ty''),
      NewKey (PStr ''ty'') (PStr []) (PStr ''idx_ty'') [],
      NewText PNone (PBool True) (PStr []) (PStr ''body'')] init_state =
     ([Some 1, None, Some 2], \<lparr>field_counter = 2, attr_key_num = 0, warnings = []\<rparr>)"
    by (simp add: drawn_def seq_num_def FieldBase_init_def Tinyint_init_def Text_init_def
          BaseIndex_init_def init_state_def Let_def)
  have k: "is_key (NewKey (PStr ''ty'') (PStr []) (PStr ''idx_ty'') [])" by simp
  from field_sequence_numbers [OF ca, of "NewKey (PStr ''ty'') (PStr []) (PStr ''idx_ty'') []"]
    ca k
  show ?thesis by (simp add: init_state_def)
qed

text \<open>
  Declaring a key in the initial state draws no number and leaves both counters at 0;
  a field declared before it and the first read of the key's \<open>_attr_key\<close> after it both
  give 1.
\<close>

theorem key_draws_no_number:
  "construct (NewKey (PStr ''phone'') (PStr []) (PStr ''idx_phone'') []) init_state =
     (None, init_state) \<and>
   field_counter init_state = 0 \<and> attr_key_num init_state = 0 \<and>
   construct_all
     [NewTinyint (PInt 4) (PBool False) (PBool True) PNone (PStr []) (PStr ''phone''),
      NewKey (PStr ''phone'') (PStr []) (PStr ''idx_phone'') []] init_state =
     ([Some 1, None], \<lparr>field_counter = 1, attr_key_num = 0, warnings = []\<rparr>) \<and>
   fst (attr_key (fst (BaseIndex_init CKey (PStr ''phone'') (PStr []) (PStr ''idx_phone'') []
                         \<lparr>field_counter = 1, attr_key_num = 0, warnings = []\<rparr>))
          \<lparr>field_counter = 1, attr_key_num = 0, warnings = []\<rparr>) = 1"
  by (simp add: drawn_def seq_num_def FieldBase_init_def Tinyint_init_def BaseIndex_init_def
        init_state_def attr_key_def Let_def)

section \<open>Logical composition\<close>

text \<open>
  Claim C6 says that \<open>a & b\<close> (and \<open>a | b\<close>) of two expressions renders as
  \<open>((<a>) AND (<b>))\<close>, each side in its own parenthesis pair. Each side is wrapped in
  its own pair, but nothing wraps the whole: whenever both sides render, to \<open>sa\<close> and
  \<open>sb\<close>, the combination is an expression with \<open>logic=True\<close> over the two texts and
  renders as \<open>(sa) AND (sb)\<close>, respectively \<open>(sa) OR (sb)\<close>.
\<close>

theorem logic_expression_text:
  "Expr_sql a = Inr (sa, a') \<Longrightarrow> Expr_sql b = Inr (sb, b') \<Longrightarrow>
   Expr_and a (OExpr b) = Inr (Expr_init (PStr sa) OPER_AND (PStr sb) False True) \<and>
   map_sum id fst (Expr_sql (Expr_init (PStr sa) OPER_AND (PStr sb) False True)) =
     Inr (''('' @ sa @ '') AND ('' @ sb @ '')'') \<and>
   Expr_or a (OExpr b) = Inr (Expr_init (PStr sa) OPER_OR (PStr sb) False True) \<and>
   map_sum id fst (Expr_sql (Expr_init (PStr sa) OPER_OR (PStr sb) False True)) =
     Inr (''('' @ sa @ '') OR ('' @ sb @ '')'')"
  by (simp add: Expr_and_def Expr_or_def Expr_init_def Expr_sql_def
        Cnt_sql_def Cnt_init_def OPER_defs)

theorem logic_expression_text_witness:
  "Expr_sql (expr_method OPER_GT False (Column_init (PStr ''age'')) (PInt 10)) =
     Inr (''age > 10'', expr_method OPER_GT False (Column_init (PStr ''age'')) (PInt 10)) \<and>
   Expr_sql (Column_eq (Column_init (PStr ''name'')) (PStr ''test'')) =
     Inr (''name = test'', Column_eq (Column_init (PStr ''name'')) (PStr ''test'')) \<and>
   Expr_and (expr_method OPER_GT False (Column_init (PStr ''age'')) (PInt 10))
     (OExpr (Column_eq (Column_init (PStr ''name'')) (PStr ''test''))) =
     Inr (Expr_init (PStr ''age > 10'') OPER_AND (PStr ''name = test'') False True) \<and>
   map_sum id fst
     (Expr_sql (Expr_init (PStr ''age > 10'') OPER_AND (PStr ''name = test'') False True)) =
     Inr ''(age > 10) AND (name = test)''"
proof -
  have a: "Expr_sql (expr_method OPER_GT False (Column_init (PStr ''age'')) (PInt 10)) =
     Inr (''age > 10'', expr_method OPER_GT False (Column_init (PStr ''age'')) (PInt 10))"
    by code_simp
  have b: "Expr_sql (Column_eq (Column_init (PStr ''name'')) (PStr ''test'')) =
     Inr (''name = test'', Column_eq (Column_init (PStr ''name'')) (PStr ''test''))"
    by code_simp
  from logic_expression_text [OF a b] a b show ?thesis by simp
qed

text \<open>
  \<open>(age > 10) & (name == 'test')\<close> renders as \<open>(age > 10) AND (name = test)\<close>, with no
  pair around the whole.
\<close>

theorem logic_expression_counterexample:
  "(case Expr_and (expr_method OPER_GT False (Column_init (PStr ''age'')) (PInt 10))
           (OExpr (Column_eq (Column_init (PStr ''name'')) (PStr ''test''))) of
      Inl err \<Rightarrow> Inl err
    | Inr e \<Rightarrow> map_sum id fst (Expr_sql e)) = Inr ''(age > 10) AND (name = test)'' \<and>
   ''(age > 10) AND (name = test)'' \<noteq> ''((age > 10) AND (name = test))''"
  by code_simp

text \<open>
  Claim C7 says that a boolean literal may stand on either side of \<open>&\<close> or \<open>|\<close> with an
  expression, and that any other value that is not an expression fails with an
  invalid-combination error. \<open>Expr.__and__\<close> and \<open>Expr.__or__\<close> accept an expression
  only: every other right operand, a boolean included, fails with \<open>ValueError\<close>, and
  with an expression on the right the result is an expression whenever both sides render.
\<close>

theorem logic_operand_guard:
  "Expr_and a (OVal v) = Inl ValueError \<and> Expr_or a (OVal v) = Inl ValueError \<and>
   (\<not> isl (Expr_sql a) \<and> \<not> isl (Expr_sql b) \<longrightarrow>
      \<not> isl (Expr_and a (OExpr b)) \<and> \<not> isl (Expr_or a (OExpr b)))"
  by (auto simp: Expr_and_def Expr_or_def split: sum.splits prod.splits)

theorem logic_operand_guard_witness:
  "Expr_and (expr_method OPER_GT False (Column_init (PStr ''age'')) (PInt 10)) (OVal (PInt 5)) =
     Inl ValueError \<and>
   \<not> isl (Expr_sql (expr_method OPER_GT False (Column_init (PStr ''age'')) (PInt 10))) \<and>
   \<not> isl (Expr_sql (Column_eq (Column_init (PStr ''name'')) (PStr ''test''))) \<and>
   \<not> isl (Expr_or (expr_method OPER_GT False (Column_init (PStr ''age'')) (PInt 10))
             (OExpr (Column_eq (Column_init (PStr ''name'')) (PStr ''test''))))"
proof -
  have a: "\<not> isl (Expr_sql (expr_method OPER_GT False (Column_init (PStr ''age'')) (PInt 10)))"
    by code_simp
  have b: "\<not> isl (Expr_sql (Column_eq (Column_init (PStr ''name'')) (PStr ''test'')))"
    by code_simp
  from logic_operand_guard [of "expr_method OPER_GT False (Column_init (PStr ''age'')) (PInt 10)"
      "PInt 5" "Column_eq (Column_init (PStr ''name'')) (PStr ''test'')"] a b
  show ?thesis by simp
qed

text \<open>\<open>(age > 10) & True\<close> raises \<open>ValueError\<close>.\<close>

theorem logic_boolean_counterexample:
  "Expr_and (expr_method OPER_GT False (Column_init (PStr ''age'')) (PInt 10))
     (OVal (PBool True)) = Inl ValueError \<and>
   isl (Expr_and (expr_method OPER_GT False (Column_init (PStr ''age'')) (PInt 10))
          (OVal (PBool True)))"
  by (simp add: Expr_and_def)

section \<open>Item access and membership\<close>

text \<open>
  Claim C8: for a column \<open>c\<close> and values \<open>a\<close>, \<open>b\<close> other than \<open>None\<close>, the item access
  \<open>c[a:b]\<close> is the expression \<open>c.between(a, b)\<close>; item access with a slice whose start
  or stop is missing fails with an invalid-value error (\<open>ValueError\<close>); item access with
  a plain value (neither a slice nor a column) is the comparison \<open>c.__eq__(item)\<close>, which
  for a value other than \<open>None\<close> has the operator \<open>=\<close> and renders as \<open>name = value\<close>.
  An item that is itself a column gives an equality between the two names as well: with
  the item's name first when its class is a proper subclass of the class of \<open>c\<close>, with
  the name of \<open>c\<close> first otherwise.
\<close>

theorem getitem_slice_between:
  "(start \<noteq> PNone \<and> stop \<noteq> PNone \<longrightarrow>
      getitem c (PSlice start stop step) = Inr (between c start stop)) \<and>
   (start = PNone \<or> stop = PNone \<longrightarrow> getitem c (PSlice start stop step) = Inl ValueError) \<and>
   (\<not> is_slice item \<and> \<not> is_column item \<longrightarrow> getitem c item = Inr (Column_eq c item)) \<and>
   (\<not> is_slice item \<and> \<not> is_column item \<and> item \<noteq> PNone \<longrightarrow>
      op (Column_eq c item) = OPER_EQ \<and>
      map_sum id fst (Expr_sql (Column_eq c item)) =
        Inr (py_str (f_name c) @ '' = '' @ py_str item)) \<and>
   (proper_subclass icls (f_cls c) \<longrightarrow>
      getitem c (PColumn icls n) =
        Inr (Expr_init (PColumn icls n) OPER_EQ (as_value c) False False) \<and>
      map_sum id fst (Expr_sql (Expr_init (PColumn icls n) OPER_EQ (as_value c) False False)) =
        Inr (py_str n @ '' = '' @ py_str (f_name c))) \<and>
   (\<not> proper_subclass icls (f_cls c) \<longrightarrow>
      getitem c (PColumn icls n) =
        Inr (Expr_init (as_value c) OPER_EQ (PColumn icls n) False False) \<and>
      map_sum id fst (Expr_sql (Expr_init (as_value c) OPER_EQ (PColumn icls n) False False)) =
        Inr (py_str (f_name c) @ '' = '' @ py_str n))"
proof -
  have slices: "(start \<noteq> PNone \<and> stop \<noteq> PNone \<longrightarrow>
      getitem c (PSlice start stop step) = Inr (between c start stop)) \<and>
   (start = PNone \<or> stop = PNone \<longrightarrow> getitem c (PSlice start stop step) = Inl ValueError)"
    by (simp add: getitem_def)
  have plain: "(\<not> is_slice item \<and> \<not> is_column item \<longrightarrow>
      getitem c item = Inr (Column_eq c item)) \<and>
   (\<not> is_slice item \<and> \<not> is_column item \<and> item \<noteq> PNone \<longrightarrow>
      op (Column_eq c item) = OPER_EQ \<and>
      map_sum id fst (Expr_sql (Column_eq c item)) =
        Inr (py_str (f_name c) @ '' = '' @ py_str item))"
    by (cases item)
       (simp_all add: getitem_def py_eq_def Column_eq_def Expr_init_def as_value_def
          Expr_sql_def Cnt_sql_def Cnt_init_def OPER_defs)
  have columns: "(proper_subclass icls (f_cls c) \<longrightarrow>
      getitem c (PColumn icls n) =
        Inr (Expr_init (PColumn icls n) OPER_EQ (as_value c) False False) \<and>
      map_sum id fst (Expr_sql (Expr_init (PColumn icls n) OPER_EQ (as_value c) False False)) =
        Inr (py_str n @ '' = '' @ py_str (f_name c))) \<and>
   (\<not> proper_subclass icls (f_cls c) \<longrightarrow>
      getitem c (PColumn icls n) =
        Inr (Expr_init (as_value c) OPER_EQ (PColumn icls n) False False) \<and>
      map_sum id fst (Expr_sql (Expr_init (as_value c) OPER_EQ (PColumn icls n) False False)) =
        Inr (py_str (f_name c) @ '' = '' @ py_str n))"
    by (simp add: getitem_def py_eq_def Column_eq_def Expr_init_def as_value_def
          Expr_sql_def Cnt_sql_def Cnt_init_def OPER_defs)
  from slices plain columns show ?thesis by blast
qed

theorem getitem_slice_between_witness:
  "getitem (Column_init (PStr ''age'')) (PSlice (PInt 20) (PInt 30) PNone) =
     Inr (between (Column_init (PStr ''age'')) (PInt 20) (PInt 30)) \<and>
   map_sum id fst (Expr_sql (between (Column_init (PStr ''age'')) (PInt 20) (PInt 30))) =
     Inr ''age BETWEEN 20 AND 30'' \<and>
   getitem (Column_init (PStr ''age'')) (PSlice PNone (PInt 20) PNone) = Inl ValueError \<and>
   getitem (Column_init (PStr ''age'')) (PSlice (PInt 20) PNone PNone) = Inl ValueError \<and>
   getitem (Column_init (PStr ''age'')) (PSlice PNone PNone PNone) = Inl ValueError \<and>
   getitem (Column_init (PStr ''age'')) (PInt 10) =
     Inr (Column_eq (Column_init (PStr ''age'')) (PInt 10)) \<and>
   map_sum id fst (Expr_sql (Column_eq (Column_init (PStr ''age'')) (PInt 10))) =
     Inr ''age = 10'' \<and>
   proper_subclass CTinyint (f_cls (Column_init (PStr ''a''))) \<and>
   map_sum id (\<lambda>e. map_sum id fst (Expr_sql e))
     (getitem (Column_init (PStr ''a'')) (PColumn CTinyint (PStr ''b''))) = Inr (Inr ''b = a'') \<and>
   \<not> proper_subclass CColumn (f_cls (Column_init (PStr ''a''))) \<and>
   map_sum id (\<lambda>e. map_sum id fst (Expr_sql e))
     (getitem (Column_init (PStr ''a'')) (PColumn CColumn (PStr ''b''))) = Inr (Inr ''a = b'')"
proof -
  have digits: "str_int 10 = ''10''" by code_simp
  have btw: "map_sum id fst (Expr_sql (between (Column_init (PStr ''age'')) (PInt 20) (PInt 30))) =
     Inr ''age BETWEEN 20 AND 30''"
    by code_simp
  have sub: "proper_subclass CTinyint (f_cls (Column_init (PStr ''a'')))"
    "\<not> proper_subclass CColumn (f_cls (Column_init (PStr ''a'')))"
    by (simp_all add: proper_subclass_def Column_init_def)
  show ?thesis
    using getitem_slice_between [of "PInt 20" "PInt 30" "Column_init (PStr ''age'')" PNone
            "PInt 10" CColumn "PStr ''b''"]
          getitem_slice_between [of PNone "PInt 20" "Column_init (PStr ''age'')" PNone
            "PInt 10" CColumn "PStr ''b''"]
          getitem_slice_between [of "PInt 20" PNone "Column_init (PStr ''age'')" PNone
            "PInt 10" CColumn "PStr ''b''"]
          getitem_slice_between [of PNone PNone "Column_init (PStr ''age'')" PNone
            "PInt 10" CColumn "PStr ''b''"]
          getitem_slice_between [of PNone PNone "Column_init (PStr ''a'')" PNone
            "PInt 10" CTinyint "PStr ''b''"]
          getitem_slice_between [of PNone PNone "Column_init (PStr ''a'')" PNone
            "PInt 10" CColumn "PStr ''b''"]
          btw sub
    by (simp add: Column_init_def digits as_value_def)
qed

text \<open>
  Claim C9 says that for \<open>in_\<close>, \<open>nin\<close> and \<open>exists\<close> an iterable right-hand side is bound
  as a single tuple when the expression is compiled, and that a right-hand side that is
  not iterable fails with a type-mismatch error. The first half holds as far as this
  code has parameters: the right operand is replaced by the one tuple of its elements,
  which is rendered in the text. The failure is a \<open>ValueError\<close>, the invalid-value kind,
  not a type mismatch.
\<close>

theorem membership_rhs:
  "(is_iterable (name_if_column v) \<longrightarrow>
      Expr_sql (Column_in c v) =
        Inr (py_str (f_name c) @ '' IN '' @ py_str (py_tuple (name_if_column v)),
             (Column_in c v)\<lparr>rhs := py_tuple (name_if_column v)\<rparr>) \<and>
      Expr_sql (Column_nin c v) =
        Inr (py_str (f_name c) @ '' NOT IN '' @ py_str (py_tuple (name_if_column v)),
             (Column_nin c v)\<lparr>rhs := py_tuple (name_if_column v)\<rparr>) \<and>
      Expr_sql (Column_exists c v) =
        Inr (py_str (f_name c) @ '' EXISTS '' @ py_str (py_tuple (name_if_column v)),
             (Column_exists c v)\<lparr>rhs := py_tuple (name_if_column v)\<rparr>)) \<and>
   (\<not> is_iterable (name_if_column v) \<longrightarrow>
      Expr_sql (Column_in c v) = Inl ValueError \<and>
      Expr_sql (Column_nin c v) = Inl ValueError \<and>
      Expr_sql (Column_exists c v) = Inl ValueError)"
  by (simp add: Column_in_def Column_nin_def Column_exists_def expr_method_def Expr_init_def
        as_value_def Expr_sql_def Cnt_sql_def Cnt_init_def Let_def OPER_defs)

theorem membership_rhs_witness:
  "is_iterable (name_if_column (PList [PStr ''at7h'', PStr ''mejor''])) \<and>
   map_sum id (\<lambda>r. rhs (snd r))
     (Expr_sql (Column_in (Column_init (PStr ''name'')) (PList [PStr ''at7h'', PStr ''mejor'']))) =
     Inr (PTuple [PStr ''at7h'', PStr ''mejor'']) \<and>
   map_sum id fst
     (Expr_sql (Column_in (Column_init (PStr ''name'')) (PList [PStr ''at7h'', PStr ''mejor'']))) =
     Inr (''name IN ('' @ [CHR 0x27] @ ''at7h'' @ [CHR 0x27] @ '', '' @ [CHR 0x27] @ ''mejor'' @
          [CHR 0x27] @ '')'') \<and>
   \<not> is_iterable (name_if_column (PInt 10)) \<and>
   Expr_sql (Column_nin (Column_init (PStr ''name'')) (PInt 10)) = Inl ValueError"
proof -
  have r: "repr_str ''at7h'' = [CHR 0x27] @ ''at7h'' @ [CHR 0x27]"
    "repr_str ''mejor'' = [CHR 0x27] @ ''mejor'' @ [CHR 0x27]"
    by code_simp+
  show ?thesis
    using membership_rhs [of "PList [PStr ''at7h'', PStr ''mejor'']" "Column_init (PStr ''name'')"]
          membership_rhs [of "PInt 10" "Column_init (PStr ''name'')"]
    by (simp add: Column_init_def r)
qed

text \<open>\<open>name.in_(10)\<close> fails on rendering with \<open>ValueError\<close>, which is not \<open>TypeError\<close>.\<close>

theorem membership_error_counterexample:
  "Expr_sql (Column_in (Column_init (PStr ''name'')) (PInt 10)) = Inl ValueError \<and>
   Expr_sql (Column_in (Column_init (PStr ''name'')) (PInt 10)) \<noteq> Inl TypeError"
  by (simp add: Column_in_def expr_method_def Expr_init_def Expr_sql_def)

section \<open>The check of \<open>null\<close>\<close>

text \<open>
  Claim C10: constructing a field with a \<open>null\<close> argument that is not a boolean fails
  (with \<open>ValueError\<close>) at construction, before anything is stored or counted: the
  check is the first statement of \<open>FieldBase.__init__\<close>, which the constructor of every
  field class (\<open>Tinyint\<close>, \<open>Smallint\<close>, \<open>Int\<close>, \<open>Bigint\<close>, \<open>Text\<close>) calls first, so no
  field is returned and the state is as before.
\<close>

theorem null_must_be_bool:
  "\<not> is_bool null \<Longrightarrow>
   FieldBase_init cls nm null dflt comment s = (Inl ValueError, s) \<and>
   Tinyint_init cls len unsigned null dflt comment nm s = (Inl ValueError, s) \<and>
   Int_init cls len unsigned null primary_key dflt comment nm s = (Inl ValueError, s) \<and>
   Text_init encoding null comment nm s = (Inl ValueError, s)"
  by (simp add: FieldBase_init_def Tinyint_init_def Int_init_def Text_init_def)

theorem null_must_be_bool_witness:
  "\<not> is_bool (PInt 1) \<and>
   FieldBase_init CFieldBase (PStr ''f'') (PInt 1) PNone (PStr []) init_state =
     (Inl ValueError, init_state) \<and>
   Tinyint_init CSmallint (PInt 6) (PBool False) (PInt 1) PNone (PStr []) (PStr ''f'') init_state =
     (Inl ValueError, init_state) \<and>
   Int_init CBigint (PInt 20) (PBool False) (PInt 1) (PBool True) PNone (PStr []) (PStr ''f'')
     init_state = (Inl ValueError, init_state) \<and>
   Text_init PNone (PInt 1) (PStr []) (PStr ''f'') init_state = (Inl ValueError, init_state)"
proof -
  have h: "\<not> is_bool (PInt 1)" by simp
  from null_must_be_bool [OF h, of CFieldBase "PStr ''f''" PNone "PStr []" init_state]
       null_must_be_bool [OF h, of CSmallint "PStr ''f''" PNone "PStr []" init_state
         "PInt 6" "PBool False"]
       null_must_be_bool [OF h, of CBigint "PStr ''f''" PNone "PStr []" init_state
         "PInt 20" "PBool False" "PBool True" PNone]
       h
  show ?thesis by simp
qed

end
